theory Spec2Isabelle
  imports Main "HOL-Library.AList" "HOL-Library.Sublist"
begin

section \<open>The process state seen by \<open>src/cli/__init__.py\<close>\<close>

text \<open>
  The command \<open>init\<close> works on three pieces of process-wide state: the environment
  (\<open>os.environ\<close>), the current working directory and the file system. They are kept in
  one record that every operation takes and returns. The record also holds the list of
  calls made to the operating system, in the order they were made, so that a statement
  such as "the fallback command is run" is a statement about a value.

  A path is the list of the names from the root of the file system; all paths of the
  model are absolute. A directory is the list of its entries, in the order they were
  created; \<open>AList.update\<close> replaces an entry in place and appends a new one, which is
  how a Python \<open>dict\<close> behaves too. Symbolic links, permission bits and the names
  \<open>..\<close> are not modelled.
\<close>

type_synonym path = "string list"

datatype node = File string | Dir "(string \<times> node) list"

datatype error =
    CalledProcessError int
  | FileNotFoundError
  | NotADirectoryError
  | FileExistsError
  | IsADirectoryError
  | ShutilError "error list"
  | TomlDecodeError
  | KeyError string
  | TypeError
  | Exit int
  | Raised string

datatype event =
    Spawn "string list"
  | Chdir path
  | Mkdir path
  | Copytree path path
  | OpenRead path
  | OpenWrite path
  | Print string path

record world =
  environ :: "string \<rightharpoonup> string"
  cwd :: path
  root :: node
  calls :: "event list"

text \<open>A statement either returns a value or raises; either way it leaves a world.\<close>

type_synonym 'a outcome = "(error + 'a) \<times> world"

definition log :: "event \<Rightarrow> world \<Rightarrow> world" where
  "log e w = w\<lparr>calls := calls w @ [e]\<rparr>"

section \<open>\<open>modified_environ\<close>\<close>

text \<open>
  \<open>env.update(update)\<close> stores the pairs of \<open>update\<close> in their order, and
  \<open>[env.pop(k, None) for k in ks]\<close> deletes each key of \<open>ks\<close>, absent or not.
\<close>

definition env_update :: "(string \<times> string) list \<Rightarrow> (string \<rightharpoonup> string) \<Rightarrow> (string \<rightharpoonup> string)" where
  "env_update kvs env = fold (\<lambda>(k, v) e. e(k \<mapsto> v)) kvs env"

definition env_pop :: "string list \<Rightarrow> (string \<rightharpoonup> string) \<Rightarrow> (string \<rightharpoonup> string)" where
  "env_pop ks env = fold (\<lambda>k e. e(k := None)) ks env"

text \<open>
  The three values computed before the \<open>try\<close>. \<open>stomped\<close> and \<open>remove_after\<close>
  are sets in the source; here they are lists, whose order and repetitions do not
  matter to the two operations above. \<open>env[k]\<close> is read only at keys of \<open>env\<close>.
\<close>

definition stomped :: "string list \<Rightarrow> (string \<times> string) list \<Rightarrow> (string \<rightharpoonup> string) \<Rightarrow> string list" where
  "stomped remove update env = filter (\<lambda>k. env k \<noteq> None) (map fst update @ remove)"

definition update_after :: "string list \<Rightarrow> (string \<times> string) list \<Rightarrow> (string \<rightharpoonup> string) \<Rightarrow> (string \<times> string) list" where
  "update_after remove update env = map (\<lambda>k. (k, the (env k))) (stomped remove update env)"

definition remove_after :: "(string \<times> string) list \<Rightarrow> (string \<rightharpoonup> string) \<Rightarrow> string list" where
  "remove_after update env = filter (\<lambda>k. env k = None) (map fst update)"

text \<open>The environment inside the scope: the updates, then the removals.\<close>

definition environ_entered :: "string list \<Rightarrow> (string \<times> string) list \<Rightarrow> (string \<rightharpoonup> string) \<Rightarrow> (string \<rightharpoonup> string)" where
  "environ_entered remove update env = env_pop remove (env_update update env)"

definition enter_environ :: "string list \<Rightarrow> (string \<times> string) list \<Rightarrow> world \<Rightarrow> world" where
  "enter_environ remove update w = w\<lparr>environ := environ_entered remove update (environ w)\<rparr>"

text \<open>
  \<open>with modified_environ(*remove, **update): body\<close>. The body runs at the
  \<open>yield\<close>; the \<open>finally\<close> block runs whether the body returned or raised, and
  what the body returned or raised is then passed on.
\<close>

definition modified_environ ::
  "string list \<Rightarrow> (string \<times> string) list \<Rightarrow> (world \<Rightarrow> 'a outcome) \<Rightarrow> world \<Rightarrow> 'a outcome" where
  "modified_environ remove update body w =
     (let env = environ w;
          ua = update_after remove update env;
          ra = remove_after update env;
          (r, w') = body (enter_environ remove update w)
      in (r, w'\<lparr>environ := env_pop ra (env_update ua (environ w'))\<rparr>))"

section \<open>Paths and the file system\<close>

text \<open>
  \<open>pathlib.Path.cwd() / name\<close>: the text \<open>name\<close> is cut at every \<open>/\<close>; empty
  pieces and \<open>.\<close> are dropped; a \<open>name\<close> that starts with \<open>/\<close> replaces the left
  operand.
\<close>

fun parts :: "string \<Rightarrow> string \<Rightarrow> string list" where
  "parts acc [] = (if acc = [] \<or> acc = ''.'' then [] else [acc])"
| "parts acc (c # cs) =
     (if c = CHR ''/''
      then (if acc = [] \<or> acc = ''.'' then [] else [acc]) @ parts [] cs
      else parts (acc @ [c]) cs)"

definition joinpath :: "path \<Rightarrow> string \<Rightarrow> path" where
  "joinpath base name =
     (case name of
        [] \<Rightarrow> base
      | c # cs \<Rightarrow> if c = CHR ''/'' then parts [] name else base @ parts [] name)"

text \<open>Looking a path up, with the error the operating system gives when it cannot.\<close>

fun resolve :: "node \<Rightarrow> path \<Rightarrow> error + node" where
  "resolve n [] = Inr n"
| "resolve (File f) (c # cs) = Inl NotADirectoryError"
| "resolve (Dir es) (c # cs) =
     (case map_of es c of
        None \<Rightarrow> Inl FileNotFoundError
      | Some ch \<Rightarrow> resolve ch cs)"

text \<open>\<open>None\<close> when the path is a directory one can enter, else the error of entering it.\<close>

definition access_dir :: "node \<Rightarrow> path \<Rightarrow> error option" where
  "access_dir r p =
     (case resolve r p of
        Inl e \<Rightarrow> Some e
      | Inr (File f) \<Rightarrow> Some NotADirectoryError
      | Inr (Dir es) \<Rightarrow> None)"

text \<open>
  Storing a node at a path whose parent directory exists: an existing entry is
  replaced, a missing last name is created. Any other path leaves the tree as it is.
\<close>

fun put_node :: "path \<Rightarrow> node \<Rightarrow> node \<Rightarrow> node" where
  "put_node [] new n = new"
| "put_node (c # cs) new (File f) = File f"
| "put_node (c # cs) new (Dir es) =
     (case map_of es c of
        None \<Rightarrow> if cs = [] then Dir (AList.update c new es) else Dir es
      | Some ch \<Rightarrow> Dir (AList.update c (put_node cs new ch) es))"

text \<open>
  \<open>destination.mkdir(exist_ok=True, parents=True)\<close>, and \<open>os.makedirs(dst,
  exist_ok=True)\<close> inside \<open>shutil.copytree\<close>: every missing directory of the path is
  created; a directory that exists is accepted; a file on the way is an error, raised
  before anything is created.
\<close>

fun path_mkdir :: "path \<Rightarrow> node \<Rightarrow> error + node" where
  "path_mkdir [] (Dir es) = Inr (Dir es)"
| "path_mkdir [] (File f) = Inl FileExistsError"
| "path_mkdir (c # cs) (File f) = Inl NotADirectoryError"
| "path_mkdir (c # cs) (Dir es) =
     (case path_mkdir cs (case map_of es c of None \<Rightarrow> Dir [] | Some ch \<Rightarrow> ch) of
        Inl e \<Rightarrow> Inl e
      | Inr ch' \<Rightarrow> Inr (Dir (AList.update c ch' es)))"

text \<open>
  \<open>shutil.copytree(source, destination, dirs_exist_ok=True)\<close>, on the entries of the
  source directory and of the destination directory. For every source entry, in order:
  \<^item> a directory is copied into the destination entry of its name, which is created
    when missing and must not be a file (\<open>os.makedirs\<close> raises \<open>FileExistsError\<close>);
  \<^item> a file is written by \<open>shutil.copy2\<close>, which replaces a file of its name and, when
    the destination entry is a directory, writes the file inside that directory under
    the same name (failing when that name is a directory too).
  An error at one entry is recorded and the copy goes on with the next entry; the
  errors are raised together at the end, as one \<open>shutil.Error\<close>.
\<close>

fun copy_entry :: "string \<Rightarrow> node \<Rightarrow> (string \<times> node) list \<Rightarrow> error list \<times> (string \<times> node) list"
  and copy_entries :: "(string \<times> node) list \<Rightarrow> (string \<times> node) list \<Rightarrow> error list \<times> (string \<times> node) list"
where
  "copy_entry name (File f) dst =
     (case map_of dst name of
        Some (Dir d) \<Rightarrow>
          (case map_of d name of
             Some (Dir d') \<Rightarrow> ([IsADirectoryError], dst)
           | _ \<Rightarrow> ([], AList.update name (Dir (AList.update name (File f) d)) dst))
      | _ \<Rightarrow> ([], AList.update name (File f) dst))"
| "copy_entry name (Dir es) dst =
     (case map_of dst name of
        Some (File f) \<Rightarrow> ([FileExistsError], dst)
      | Some (Dir d) \<Rightarrow>
          (case copy_entries es d of (errs, d') \<Rightarrow> (errs, AList.update name (Dir d') dst))
      | None \<Rightarrow>
          (case copy_entries es [] of (errs, d') \<Rightarrow> (errs, AList.update name (Dir d') dst)))"
| "copy_entries [] dst = ([], dst)"
| "copy_entries ((name, n) # rest) dst =
     (case copy_entry name n dst of
        (errs, dst') \<Rightarrow>
          (case copy_entries rest dst' of (errs', dst'') \<Rightarrow> (errs @ errs', dst'')))"

text \<open>
  The whole call, on the tree. The source directory is read first (\<open>os.scandir\<close>),
  then the destination is made, then the entries are copied. The source is taken as it
  was before the copy: source and destination are not expected to lie inside each other.
\<close>

definition copytree :: "path \<Rightarrow> path \<Rightarrow> node \<Rightarrow> error option \<times> node" where
  "copytree src dst r =
     (case resolve r src of
        Inl e \<Rightarrow> (Some e, r)
      | Inr (File f) \<Rightarrow> (Some NotADirectoryError, r)
      | Inr (Dir es) \<Rightarrow>
          (case path_mkdir dst r of
             Inl e \<Rightarrow> (Some e, r)
           | Inr r1 \<Rightarrow>
               (case resolve r1 dst of
                  Inr (Dir d) \<Rightarrow>
                    (case copy_entries es d of
                       (errs, d') \<Rightarrow>
                         (if errs = [] then None else Some (ShutilError errs),
                          put_node dst (Dir d') r1))
                | _ \<Rightarrow> (Some NotADirectoryError, r1))))"

text \<open>A directory holds each name once, at every level.\<close>

fun wf_node :: "node \<Rightarrow> bool"
  and wf_entries :: "(string \<times> node) list \<Rightarrow> bool"
where
  "wf_node (File f) = True"
| "wf_node (Dir es) = wf_entries es"
| "wf_entries [] = True"
| "wf_entries ((name, n) # rest) = (name \<notin> fst ` set rest \<and> wf_node n \<and> wf_entries rest)"

section \<open>\<open>copy_template_files\<close>\<close>

definition copy_template_files :: "path \<Rightarrow> path \<Rightarrow> world \<Rightarrow> unit outcome" where
  "copy_template_files destination source w =
     (let w1 = log (Mkdir destination) w in
      case path_mkdir destination (root w1) of
        Inl e \<Rightarrow> (Inl e, w1)
      | Inr r1 \<Rightarrow>
          (let w2 = log (Copytree source destination) (w1\<lparr>root := r1\<rparr>) in
           case copytree source destination (root w2) of
             (Some e, r2) \<Rightarrow> (Inl e, w2\<lparr>root := r2\<rparr>)
           | (None, r2) \<Rightarrow> (Inr (), w2\<lparr>root := r2\<rparr>)))"

section \<open>\<open>ChangeDirectory\<close>\<close>

definition os_chdir :: "path \<Rightarrow> world \<Rightarrow> unit outcome" where
  "os_chdir p w =
     (let w1 = log (Chdir p) w in
      case access_dir (root w1) p of
        Some e \<Rightarrow> (Inl e, w1)
      | None \<Rightarrow> (Inr (), w1\<lparr>cwd := p\<rparr>))"

record ChangeDirectory =
  new_path :: path
  previous_path :: path

definition ChangeDirectory_init :: "path \<Rightarrow> world \<Rightarrow> ChangeDirectory" where
  "ChangeDirectory_init p w = \<lparr>new_path = p, previous_path = cwd w\<rparr>"

definition ChangeDirectory_enter :: "ChangeDirectory \<Rightarrow> world \<Rightarrow> ChangeDirectory outcome" where
  "ChangeDirectory_enter self w =
     (let self' = self\<lparr>previous_path := cwd w\<rparr> in
      case os_chdir (new_path self') w of
        (Inl e, w1) \<Rightarrow> (Inl e, w1)
      | (Inr u, w1) \<Rightarrow> (Inr self', w1))"

definition ChangeDirectory_exit :: "ChangeDirectory \<Rightarrow> world \<Rightarrow> unit outcome" where
  "ChangeDirectory_exit self w = os_chdir (previous_path self) w"

text \<open>
  \<open>with ChangeDirectory(p): body\<close>. When \<open>__enter__\<close> raises, neither the body nor
  \<open>__exit__\<close> runs. Otherwise \<open>__exit__\<close> runs after the body, returned or raised;
  it returns \<open>None\<close>, so what the body raised is raised again, unless \<open>__exit__\<close>
  raises itself.
\<close>

definition with_ChangeDirectory :: "path \<Rightarrow> (world \<Rightarrow> 'a outcome) \<Rightarrow> world \<Rightarrow> 'a outcome" where
  "with_ChangeDirectory p body w =
     (case ChangeDirectory_enter (ChangeDirectory_init p w) w of
        (Inl e, w1) \<Rightarrow> (Inl e, w1)
      | (Inr self, w1) \<Rightarrow>
          (case body w1 of
             (r, w2) \<Rightarrow>
               (case ChangeDirectory_exit self w2 of
                  (Inl e, w3) \<Rightarrow> (Inl e, w3)
                | (Inr u, w3) \<Rightarrow> (r, w3))))"

section \<open>The manifest\<close>

text \<open>
  What \<open>toml.load\<close> returns: a \<open>dict\<close> from keys to values, a value being a scalar,
  an array or again a table. Scalars other than strings, integers and booleans are kept
  as their text.
\<close>

datatype toml =
    TStr string
  | TInt int
  | TBool bool
  | TOther string
  | TArray "toml list"
  | TTable "(string \<times> toml) list"

type_synonym document = "(string \<times> toml) list"

text \<open>\<open>d[k] = v\<close> and \<open>d[k][k'] = v\<close> on a \<open>dict\<close>.\<close>

definition setitem :: "string \<Rightarrow> toml \<Rightarrow> document \<Rightarrow> document" where
  "setitem k v d = AList.update k v d"

definition setitem2 :: "string \<Rightarrow> string \<Rightarrow> toml \<Rightarrow> document \<Rightarrow> error + document" where
  "setitem2 k k' v d =
     (case map_of d k of
        None \<Rightarrow> Inl (KeyError k)
      | Some (TTable t) \<Rightarrow> Inr (AList.update k (TTable (setitem k' v t)) d)
      | Some other \<Rightarrow> Inl TypeError)"

text \<open>Lines 110 to 114 of \<open>init\<close>.\<close>

definition prefect_settings :: toml where
  "prefect_settings =
     TTable [(''home'', TStr ''./.prefect''),
             (''profiles_path'', TStr ''./.prefect/profiles.toml'')]"

definition patch_manifest :: "document \<Rightarrow> error + document" where
  "patch_manifest pyproject =
     setitem2 ''tool'' ''prefect'' prefect_settings (setitem ''tool'' (TTable []) pyproject)"

text \<open>\<open>doc[k]\<close> and \<open>doc[k][k']\<close>, read.\<close>

definition getitem2 :: "string \<Rightarrow> string \<Rightarrow> document \<Rightarrow> toml option" where
  "getitem2 k k' d =
     (case map_of d k of
        Some (TTable t) \<Rightarrow> map_of t k'
      | _ \<Rightarrow> None)"

section \<open>What \<open>init\<close> is given\<close>

text \<open>
  The program \<open>uv\<close> is not part of the repository. It is a function of its arguments,
  of the environment and working directory it inherits and of the file system; it gives
  an exit status, or \<open>None\<close> when it could not be started, and the file system it left.
  \<open>toml.load\<close> and \<open>toml.dump\<close> are given as a reader and a writer of file contents,
  and \<open>__file__\<close> as the path of \<open>src/cli/__init__.py\<close> where the package is installed.
\<close>

type_synonym program = "string list \<Rightarrow> (string \<rightharpoonup> string) \<Rightarrow> path \<Rightarrow> node \<Rightarrow> int option \<times> node"

record host =
  uv :: program
  toml_loads :: "string \<Rightarrow> document option"
  toml_dumps :: "document \<Rightarrow> string"
  module_file :: path

definition TEMPLATE_DIRECTORY :: "host \<Rightarrow> path" where
  "TEMPLATE_DIRECTORY h = butlast (butlast (module_file h)) @ [''_templates'']"

definition default_source :: "host \<Rightarrow> path" where
  "default_source h = TEMPLATE_DIRECTORY h @ [''default'']"

text \<open>
  \<open>subprocess.run(args, check=True)\<close>. The child process inherits the environment
  and the working directory and cannot change them; it can change the file system. A
  program that cannot be started raises \<open>FileNotFoundError\<close>; one that exits with a
  status other than 0 raises \<open>CalledProcessError\<close>.
\<close>

definition exit_status :: "program \<Rightarrow> string list \<Rightarrow> world \<Rightarrow> int option" where
  "exit_status prog args w = fst (prog args (environ w) (cwd w) (root w))"

definition left_by :: "program \<Rightarrow> string list \<Rightarrow> world \<Rightarrow> node" where
  "left_by prog args w = snd (prog args (environ w) (cwd w) (root w))"

definition nonzero :: "int option \<Rightarrow> bool" where
  "nonzero st = (case st of None \<Rightarrow> False | Some rc \<Rightarrow> rc \<noteq> 0)"

definition subprocess_run :: "program \<Rightarrow> string list \<Rightarrow> world \<Rightarrow> unit outcome" where
  "subprocess_run prog args w =
     (let w1 = log (Spawn args) w in
      case exit_status prog args w of
        None \<Rightarrow> (Inl FileNotFoundError, w1)
      | Some rc \<Rightarrow>
          (let w2 = w1\<lparr>root := left_by prog args w\<rparr> in
           if rc \<noteq> 0 then (Inl (CalledProcessError rc), w2) else (Inr (), w2)))"

section \<open>\<open>init\<close>\<close>

definition init_args :: "string \<Rightarrow> string list" where
  "init_args name = [''uv'', ''init'', name, ''--lib'', ''--no-workspace'', ''--quiet'', ''--no-readme'']"

definition add_primary :: "string list" where
  "add_primary = [''uv'', ''add'', ''prefect'', ''--no-active'']"

definition add_fallback :: "string list" where
  "add_fallback = [''uv'', ''add'', ''prefect'', ''--offline'', ''--no-cache'', ''--frozen'']"

text \<open>Lines 102 to 105: the \<open>except\<close> clause catches \<open>CalledProcessError\<close> only.\<close>

definition install_prefect :: "host \<Rightarrow> world \<Rightarrow> unit outcome" where
  "install_prefect h w =
     (case subprocess_run (uv h) add_primary w of
        (Inl (CalledProcessError rc), w1) \<Rightarrow> subprocess_run (uv h) add_fallback w1
      | (r, w1) \<Rightarrow> (r, w1))"

text \<open>Lines 108 to 116: read \<open>pyproject.toml\<close> in the working directory, patch, write.\<close>

definition patch_pyproject :: "host \<Rightarrow> world \<Rightarrow> unit outcome" where
  "patch_pyproject h w =
     (let p = cwd w @ [''pyproject.toml''];
          w1 = log (OpenRead p) w in
      case resolve (root w1) p of
        Inl e \<Rightarrow> (Inl e, w1)
      | Inr (Dir es) \<Rightarrow> (Inl IsADirectoryError, w1)
      | Inr (File text) \<Rightarrow>
          (case toml_loads h text of
             None \<Rightarrow> (Inl TomlDecodeError, w1)
           | Some pyproject \<Rightarrow>
               (case patch_manifest pyproject of
                  Inl e \<Rightarrow> (Inl e, w1)
                | Inr pyproject' \<Rightarrow>
                    (let w2 = log (OpenWrite p) w1 in
                     (Inr (), w2\<lparr>root := put_node p (File (toml_dumps h pyproject')) (root w2)\<rparr>)))))"

text \<open>One statement after another: the second runs only when the first returned.\<close>

definition seq :: "(world \<Rightarrow> 'a outcome) \<Rightarrow> ('a \<Rightarrow> world \<Rightarrow> 'b outcome) \<Rightarrow> world \<Rightarrow> 'b outcome" where
  "seq m f w = (case m w of (Inl e, w1) \<Rightarrow> (Inl e, w1) | (Inr x, w1) \<Rightarrow> f x w1)"

text \<open>Lines 98 to 117, the block under \<open>with ChangeDirectory(...)\<close>.\<close>

definition init_project :: "host \<Rightarrow> string \<Rightarrow> world \<Rightarrow> unit outcome" where
  "init_project h name =
     seq (\<lambda>w. copy_template_files (cwd w) (default_source h) w) (\<lambda>u.
     seq (install_prefect h) (\<lambda>u.
     seq (patch_pyproject h) (\<lambda>u w.
     (Inr (), log (Print name (cwd w)) w))))"

text \<open>Lines 91 to 97.\<close>

definition create_project :: "host \<Rightarrow> string \<Rightarrow> world \<Rightarrow> unit outcome" where
  "create_project h name =
     modified_environ [] [(''UV_VENV_SEED'', ''True'')] (subprocess_run (uv h) (init_args name))"

definition init :: "host \<Rightarrow> string \<Rightarrow> world \<Rightarrow> unit outcome" where
  "init h name w =
     (case create_project h name w of
        (Inl (CalledProcessError rc), w1) \<Rightarrow> (Inl (Exit 1), w1)
      | (Inl e, w1) \<Rightarrow> (Inl e, w1)
      | (Inr u, w1) \<Rightarrow> with_ChangeDirectory (joinpath (cwd w1) name) (init_project h name) w1)"

section \<open>Small concrete inputs\<close>

definition example_world :: world where
  "example_world =
     \<lparr>environ = [''HOME'' \<mapsto> ''/home/u'', ''LANG'' \<mapsto> ''C''],
      cwd = [''work''],
      root = Dir [(''work'', Dir []), (''tmp'', Dir [])],
      calls = []\<rparr>"

text \<open>A body that overwrites \<open>HOME\<close> and then raises.\<close>

definition clobber_home :: "world \<Rightarrow> unit outcome" where
  "clobber_home w = (Inl (Raised ''boom''), w\<lparr>environ := (environ w)(''HOME'' \<mapsto> ''/nowhere'')\<rparr>)"

text \<open>A body that sets a variable of its own and returns.\<close>

definition set_extra :: "world \<Rightarrow> unit outcome" where
  "set_extra w = (Inr (), w\<lparr>environ := (environ w)(''EXTRA'' \<mapsto> ''1'')\<rparr>)"

text \<open>A body that changes the working directory on its own and then raises.\<close>

definition raise_after_moving :: "world \<Rightarrow> unit outcome" where
  "raise_after_moving w = (Inl (Raised ''boom''), w\<lparr>cwd := []\<rparr>)"

text \<open>
  A manifest with a project table, a table \<open>tool.other\<close> and a table \<open>tool.prefect\<close>
  of other values.
\<close>

definition example_manifest :: document where
  "example_manifest =
     [(''project'', TTable [(''name'', TStr ''demo'')]),
      (''tool'', TTable [(''other'', TTable [(''x'', TInt 1)]),
                         (''prefect'', TTable [(''home'', TStr ''/old''), (''extra'', TBool True)])])]"

text \<open>
  A disk with the package installed under \<open>/pkg\<close>, its template tree shaped as the
  one of the repository, and an empty directory \<open>/work\<close>.
\<close>

definition example_template :: "(string \<times> node) list" where
  "example_template =
     [(''src'', Dir [(''tasks'', Dir [(''hello.py'', File ''task'')]),
                     (''flows'', Dir [(''hello_world.py'', File ''flow'')])])]"

definition example_disk :: node where
  "example_disk =
     Dir [(''pkg'', Dir [(''src'', Dir [(''_templates'', Dir [(''default'', Dir example_template)])])]),
          (''work'', Dir [])]"

definition example_start :: world where
  "example_start =
     \<lparr>environ = [''HOME'' \<mapsto> ''/home/u''], cwd = [''work''], root = example_disk, calls = []\<rparr>"

text \<open>
  A \<open>uv\<close> that creates the project \<open>demo\<close> and fails at every other command with
  status 1, and a \<open>uv\<close> that fails at every command with status 2.
\<close>

definition example_uv :: program where
  "example_uv args env dir r =
     (if args = init_args ''demo''
      then (Some 0, put_node (dir @ [''demo'']) (Dir [(''pyproject.toml'', File ''[project]'')]) r)
      else (Some 1, r))"

definition failing_uv :: program where
  "failing_uv args env dir r = (Some 2, r)"

definition example_host :: host where
  "example_host =
     \<lparr>uv = example_uv, toml_loads = (\<lambda>text. Some []), toml_dumps = (\<lambda>d. []),
      module_file = [''pkg'', ''src'', ''cli'', ''__init__.py'']\<rparr>"

text \<open>
  A \<open>uv\<close> that creates the project \<open>demo\<close> and succeeds at every other command,
  with a reader that gives \<open>example_manifest\<close> for every file and a writer that
  lists the top-level keys of the document.
\<close>

definition working_uv :: program where
  "working_uv args env dir r =
     (if args = init_args ''demo''
      then (Some 0, put_node (dir @ [''demo'']) (Dir [(''pyproject.toml'', File ''[project]'')]) r)
      else (Some 0, r))"

definition working_host :: host where
  "working_host =
     \<lparr>uv = working_uv, toml_loads = (\<lambda>text. Some example_manifest),
      toml_dumps = (\<lambda>d. concat (map (\<lambda>kv. fst kv @ '';'') d)),
      module_file = [''pkg'', ''src'', ''cli'', ''__init__.py'']\<rparr>"

text \<open>A body that reads one variable and returns what it found.\<close>

definition read_key :: "string \<Rightarrow> world \<Rightarrow> string option outcome" where
  "read_key k w = (Inr (environ w k), w)"

section \<open>Facts about the environment operations\<close>

lemma env_update_apply:
  "env_update kvs env k = (case map_of (rev kvs) k of None \<Rightarrow> env k | Some v \<Rightarrow> Some v)"
  unfolding env_update_def
  by (induction kvs arbitrary: env) (auto split: option.splits)

lemma env_pop_apply: "env_pop ks env k = (if k \<in> set ks then None else env k)"
  unfolding env_pop_def
  by (induction ks arbitrary: env) auto

lemma environ_entered_removed:
  "k \<in> set remove \<Longrightarrow> environ_entered remove update env k = None"
  by (simp add: environ_entered_def env_pop_apply)

lemma map_of_update_after:
  "map_of (rev (update_after remove update env)) k =
     (if k \<in> fst ` set update \<union> set remove then env k else None)"
proof -
  have aux: "map_of (rev (map (\<lambda>k. (k, the (env k))) ks)) k =
          (if k \<in> set ks then Some (the (env k)) else None)" for ks
    by (induction ks) (auto simp: map_add_def split: option.splits)
  show ?thesis
    unfolding update_after_def stomped_def aux by auto
qed

lemma set_remove_after:
  "set (remove_after update env) = {k \<in> fst ` set update. env k = None}"
  by (auto simp: remove_after_def)

text \<open>What the \<open>finally\<close> block leaves at each key, from the environment \<open>e\<close> it finds.\<close>

lemma restored_apply:
  "env_pop (remove_after update env) (env_update (update_after remove update env) e) k =
     (if k \<in> fst ` set update then env k
      else if k \<in> set remove \<and> env k \<noteq> None then env k
      else e k)"
  by (auto simp: env_pop_apply env_update_apply map_of_update_after set_remove_after
           split: option.splits)

lemma modified_environ_apply:
  "environ (snd (modified_environ remove update body w)) k =
     (if k \<in> fst ` set update then environ w k
      else if k \<in> set remove \<and> environ w k \<noteq> None then environ w k
      else environ (snd (body (enter_environ remove update w))) k)"
  by (simp add: modified_environ_def Let_def split_beta restored_apply)

lemma modified_environ_result:
  "fst (modified_environ remove update body w) = fst (body (enter_environ remove update w))"
  by (simp add: modified_environ_def Let_def split_beta)

lemma environ_entered_frame:
  "k \<notin> fst ` set update \<Longrightarrow> k \<notin> set remove \<Longrightarrow> environ_entered remove update env k = env k"
proof -
  assume "k \<notin> fst ` set update" and "k \<notin> set remove"
  then have "map_of (rev update) k = None"
    by (simp add: map_of_eq_None_iff)
  with \<open>k \<notin> set remove\<close> show ?thesis
    by (simp add: environ_entered_def env_pop_apply env_update_apply)
qed

lemma environ_entered_absent:
  "k \<notin> fst ` set update \<Longrightarrow> env k = None \<Longrightarrow> environ_entered remove update env k = None"
proof -
  assume "k \<notin> fst ` set update" and "env k = None"
  then have "map_of (rev update) k = None"
    by (simp add: map_of_eq_None_iff)
  with \<open>env k = None\<close> show ?thesis
    by (simp add: environ_entered_def env_pop_apply env_update_apply)
qed

section \<open>The scoped environment override restores the environment\<close>

text \<open>
  Claim C3. Let the body of the scope change, at most, variables that the scope itself
  touches: the keys of \<open>update\<close>, and the keys of \<open>remove\<close> that were set before
  entry. Then after the scope the environment is the one before it, at every key, and
  the scope passes on what the body returned or raised. The body is any function of the
  world, so it may raise, change the file system or change the touched variables again.
\<close>

theorem modified_environ_restores:
  assumes "\<forall>k. k \<notin> fst ` set update \<union> (set remove \<inter> dom (environ w)) \<longrightarrow>
             environ (snd (body (enter_environ remove update w))) k
               = environ (enter_environ remove update w) k"
  shows "environ (snd (modified_environ remove update body w)) = environ w
         \<and> fst (modified_environ remove update body w) = fst (body (enter_environ remove update w))"
proof -
  have "environ (snd (modified_environ remove update body w)) k = environ w k" for k
  proof (cases "k \<in> fst ` set update \<union> (set remove \<inter> dom (environ w))")
    case True
    then show ?thesis by (auto simp: modified_environ_apply)
  next
    case False
    with assms have kept: "environ (snd (body (enter_environ remove update w))) k
               = environ (enter_environ remove update w) k" by blast
    from False have nu: "k \<notin> fst ` set update"
      and nr: "k \<notin> set remove \<or> environ w k = None" by auto
    from nr have "environ_entered remove update (environ w) k = environ w k"
    proof
      assume "k \<notin> set remove"
      with nu show ?thesis by (rule environ_entered_frame)
    next
      assume "environ w k = None"
      with nu show ?thesis by (simp add: environ_entered_absent)
    qed
    then have "environ (enter_environ remove update w) k = environ w k"
      by (simp add: enter_environ_def)
    with kept nu nr show ?thesis by (auto simp: modified_environ_apply)
  qed
  then have "environ (snd (modified_environ remove update body w)) = environ w"
    by (rule ext)
  then show ?thesis by (simp add: modified_environ_result)
qed

theorem modified_environ_restores_witness:
  "environ (snd (modified_environ [''LANG'', ''TERM''] [(''HOME'', ''/x''), (''SEED'', ''1'')]
             clobber_home example_world)) = environ example_world
   \<and> fst (modified_environ [''LANG'', ''TERM''] [(''HOME'', ''/x''), (''SEED'', ''1'')]
             clobber_home example_world) = Inl (Raised ''boom'')"
  using modified_environ_restores
    [of "[(''HOME'', ''/x''), (''SEED'', ''1'')]" "[''LANG'', ''TERM'']" example_world clobber_home]
  by (simp add: clobber_home_def enter_environ_def)

text \<open>
  Claim C8. Let a key be both updated and removed. A body that reads the key inside the
  scope finds it absent; more generally the scope runs its body in the world
  \<open>enter_environ remove update w\<close>, where the key is absent, and passes on what the
  body returns or raises. After the scope the key has the value, or the absence, it had
  before the scope, whatever the body did.
\<close>

theorem updated_and_removed_key:
  assumes "k \<in> fst ` set update" and "k \<in> set remove"
  shows "fst (modified_environ remove update (read_key k) w) = Inr None
         \<and> fst (modified_environ remove update body w) = fst (body (enter_environ remove update w))
         \<and> environ (enter_environ remove update w) k = None
         \<and> environ (snd (modified_environ remove update body w)) k = environ w k"
  using assms
  by (simp add: enter_environ_def environ_entered_removed modified_environ_apply
      modified_environ_result read_key_def)

theorem updated_and_removed_key_witness:
  "fst (modified_environ [''HOME''] [(''HOME'', ''/x'')] (read_key ''HOME'') example_world) = Inr None
   \<and> environ example_world ''HOME'' = Some ''/home/u''
   \<and> environ (snd (modified_environ [''HOME''] [(''HOME'', ''/x'')] clobber_home example_world)) ''HOME''
       = Some ''/home/u''"
  using updated_and_removed_key
    [of "''HOME''" "[(''HOME'', ''/x'')]" "[''HOME'']" example_world clobber_home]
  by (simp add: example_world_def)

text \<open>
  Claim C10. Exit restores the keys of \<open>update\<close> and the keys of \<open>remove\<close> that were
  set before entry, and no other: at every other key the environment after the scope is
  the one the body left. So a variable the body sets under a name outside \<open>update\<close>
  and \<open>remove\<close> is still set after the scope.
\<close>

theorem modified_environ_keeps_body_changes:
  assumes "k \<notin> fst ` set update" and "k \<notin> set remove \<or> environ w k = None"
  shows "environ (snd (modified_environ remove update body w)) k
           = environ (snd (body (enter_environ remove update w))) k"
  using assms by (auto simp: modified_environ_apply)

theorem modified_environ_keeps_body_changes_witness:
  "environ (snd (modified_environ [''LANG''] [(''SEED'', ''1'')] set_extra example_world)) ''EXTRA''
     = Some ''1''
   \<and> environ example_world ''EXTRA'' = None"
  using modified_environ_keeps_body_changes
    [of "''EXTRA''" "[(''SEED'', ''1'')]" "[''LANG'']" example_world set_extra]
  by (simp add: set_extra_def example_world_def)

section \<open>The scoped working directory\<close>

lemma os_chdir_ok:
  "access_dir (root w) p = None \<Longrightarrow> os_chdir p w = (Inr (), (log (Chdir p) w)\<lparr>cwd := p\<rparr>)"
  by (simp add: os_chdir_def Let_def log_def)

lemma os_chdir_fails:
  "access_dir (root w) p = Some e \<Longrightarrow> os_chdir p w = (Inl e, log (Chdir p) w)"
  by (simp add: os_chdir_def Let_def log_def)

lemma access_dir_errors:
  "access_dir r p = Some e \<Longrightarrow> e = FileNotFoundError \<or> e = NotADirectoryError"
proof (induction r p rule: resolve.induct)
  case (1 n)
  then show ?case by (cases n) (auto simp: access_dir_def)
next
  case (2 f c cs)
  then show ?case by (auto simp: access_dir_def)
next
  case (3 es c cs)
  then show ?case by (auto simp: access_dir_def split: option.splits)
qed

text \<open>
  Claim C4. Let \<open>D1\<close> be a directory that can be entered, and let the directory the
  process was in still be one that can be entered when the body ends. Then after the
  scope the working directory is the one before it, and the scope passes on what the
  body returned or raised. The body is any function of the world: it may raise, and it
  may change the working directory itself.
\<close>

theorem ChangeDirectory_restores:
  assumes "access_dir (root w) D1 = None"
      and "access_dir (root (snd (body (snd (os_chdir D1 w))))) (cwd w) = None"
  shows "cwd (snd (with_ChangeDirectory D1 body w)) = cwd w
         \<and> fst (with_ChangeDirectory D1 body w) = fst (body (snd (os_chdir D1 w)))"
proof -
  obtain r w2 where b: "body (snd (os_chdir D1 w)) = (r, w2)"
    by (cases "body (snd (os_chdir D1 w))")
  from assms(2) b have ret: "access_dir (root w2) (cwd w) = None" by simp
  have enter: "ChangeDirectory_enter (ChangeDirectory_init D1 w) w
         = (Inr \<lparr>new_path = D1, previous_path = cwd w\<rparr>, snd (os_chdir D1 w))"
    using assms(1) by (simp add: ChangeDirectory_enter_def ChangeDirectory_init_def os_chdir_ok)
  have leave: "ChangeDirectory_exit \<lparr>new_path = D1, previous_path = cwd w\<rparr> w2
         = (Inr (), (log (Chdir (cwd w)) w2)\<lparr>cwd := cwd w\<rparr>)"
    using ret by (simp add: ChangeDirectory_exit_def os_chdir_ok)
  show ?thesis
    by (simp add: with_ChangeDirectory_def enter b leave)
qed

theorem ChangeDirectory_restores_witness:
  "cwd (snd (with_ChangeDirectory [''tmp''] raise_after_moving example_world)) = [''work'']
   \<and> fst (with_ChangeDirectory [''tmp''] raise_after_moving example_world) = Inl (Raised ''boom'')"
  using ChangeDirectory_restores [of example_world "[''tmp'']" raise_after_moving]
  by (simp add: example_world_def raise_after_moving_def access_dir_def os_chdir_def log_def)

text \<open>
  Claim C7. When the target cannot be entered, the scope raises the error of
  \<open>os.chdir\<close>, which is \<open>FileNotFoundError\<close> or \<open>NotADirectoryError\<close>. The body
  does not run, the working directory, the environment and the file system are as
  before, and the one call made is the failed \<open>os.chdir\<close> to the target: there is no
  call back to the previous directory.
\<close>

theorem ChangeDirectory_enter_fails:
  assumes "access_dir (root w) p = Some e"
  shows "with_ChangeDirectory p body w = (Inl e, w\<lparr>calls := calls w @ [Chdir p]\<rparr>)
         \<and> (e = FileNotFoundError \<or> e = NotADirectoryError)"
  using assms access_dir_errors [OF assms]
  by (simp add: with_ChangeDirectory_def ChangeDirectory_enter_def ChangeDirectory_init_def
      os_chdir_fails log_def)

theorem ChangeDirectory_enter_fails_witness:
  "with_ChangeDirectory [''work'', ''demo''] raise_after_moving example_world
     = (Inl FileNotFoundError, example_world\<lparr>calls := [Chdir [''work'', ''demo'']]\<rparr>)"
  using ChangeDirectory_enter_fails
    [of example_world "[''work'', ''demo'']" FileNotFoundError raise_after_moving]
  by (simp add: example_world_def access_dir_def)

section \<open>The manifest patch\<close>

lemma patch_manifest_eq:
  "patch_manifest d = Inr (AList.update ''tool'' (TTable [(''prefect'', prefect_settings)]) d)"
  by (simp add: patch_manifest_def setitem2_def setitem_def update_conv')

lemma filter_update_other:
  "filter (\<lambda>kv. fst kv \<noteq> k) (AList.update k v d) = filter (\<lambda>kv. fst kv \<noteq> k) d"
  by (induction d) auto

text \<open>
  Claim C1, as stated, fails: the patch assigns a new, empty table to \<open>tool\<close> before it
  stores \<open>tool.prefect\<close>, so a table \<open>tool.other\<close> of the manifest read is not in
  the manifest written.
\<close>

theorem patch_manifest_drops_tool_other:
  "getitem2 ''tool'' ''other'' example_manifest = Some (TTable [(''x'', TInt 1)])
   \<and> patch_manifest example_manifest =
       Inr [(''project'', TTable [(''name'', TStr ''demo'')]),
            (''tool'', TTable [(''prefect'', TTable [(''home'', TStr ''./.prefect''),
               (''profiles_path'', TStr ''./.prefect/profiles.toml'')])])]
   \<and> getitem2 ''tool'' ''other''
         [(''project'', TTable [(''name'', TStr ''demo'')]),
          (''tool'', TTable [(''prefect'', TTable [(''home'', TStr ''./.prefect''),
             (''profiles_path'', TStr ''./.prefect/profiles.toml'')])])] = None"
  by (simp add: patch_manifest_eq example_manifest_def getitem2_def prefect_settings_def)

text \<open>The patch as a function of the document: it succeeds, and what it returns.\<close>

lemma patch_manifest_keeps_other_tables:
  "\<exists>d'. patch_manifest d = Inr d'
        \<and> filter (\<lambda>kv. fst kv \<noteq> ''tool'') d' = filter (\<lambda>kv. fst kv \<noteq> ''tool'') d
        \<and> (\<forall>k. k \<noteq> ''tool'' \<longrightarrow> map_of d' k = map_of d k)"
  by (simp add: patch_manifest_eq filter_update_other update_conv')

lemma patch_manifest_tool_prefect:
  "\<exists>d'. patch_manifest d = Inr d'
        \<and> getitem2 ''tool'' ''prefect'' d' =
            Some (TTable [(''home'', TStr ''./.prefect''),
                          (''profiles_path'', TStr ''./.prefect/profiles.toml'')])
        \<and> map_of d' ''tool'' =
            Some (TTable [(''prefect'', TTable [(''home'', TStr ''./.prefect''),
                          (''profiles_path'', TStr ''./.prefect/profiles.toml'')])])"
  by (simp add: patch_manifest_eq getitem2_def update_conv' prefect_settings_def)

section \<open>Copying the templates\<close>

lemma update_fresh: "k \<notin> fst ` set al \<Longrightarrow> AList.update k v al = al @ [(k, v)]"
  by (induction al) auto

lemma copy_into_fresh:
  "wf_node n \<Longrightarrow> name \<notin> fst ` set dst \<Longrightarrow> copy_entry name n dst = ([], dst @ [(name, n)])"
  "wf_entries es \<Longrightarrow> fst ` set es \<inter> fst ` set dst = {} \<Longrightarrow> copy_entries es dst = ([], dst @ es)"
proof (induction name n dst and es dst rule: copy_entry_copy_entries.induct)
  case (1 name f dst)
  then have "map_of dst name = None" by (simp add: map_of_eq_None_iff)
  with 1 show ?case by (simp add: update_fresh)
next
  case (2 name es dst)
  then have none: "map_of dst name = None" by (simp add: map_of_eq_None_iff)
  from 2 none have "copy_entries es [] = ([], es)" by simp
  with none 2 show ?case by (simp add: update_fresh)
next
  case (3 dst)
  then show ?case by simp
next
  case (4 name n rest dst)
  from 4 have a: "copy_entry name n dst = ([], dst @ [(name, n)])" by auto
  have "fst ` set rest \<inter> fst ` set (dst @ [(name, n)]) = {}"
    using 4(3,4) by auto
  with 4 a have "copy_entries rest (dst @ [(name, n)]) = ([], (dst @ [(name, n)]) @ rest)"
    by simp
  with a show ?case by simp
qed

lemma path_mkdir_idem:
  "path_mkdir p r = Inr r' \<Longrightarrow> path_mkdir p r' = Inr r'"
proof (induction p r arbitrary: r' rule: path_mkdir.induct)
  case (4 c cs es)
  let ?ch = "case map_of es c of None \<Rightarrow> Dir [] | Some ch \<Rightarrow> ch"
  from 4(2) obtain ch' where m: "path_mkdir cs ?ch = Inr ch'" and r': "r' = Dir (AList.update c ch' es)"
    by (auto split: sum.splits)
  from 4(1)[OF m] have "path_mkdir cs ch' = Inr ch'" .
  then show ?case by (simp add: r' update_conv')
qed auto

lemma path_mkdir_resolve:
  "path_mkdir p r = Inr r' \<Longrightarrow> \<exists>d. resolve r' p = Inr (Dir d)"
proof (induction p r arbitrary: r' rule: path_mkdir.induct)
  case (4 c cs es)
  then show ?case by (auto split: sum.splits simp: update_conv')
qed auto

lemma path_mkdir_empty: "\<exists>n. path_mkdir p (Dir []) = Inr n \<and> resolve n p = Inr (Dir [])"
  by (induction p) auto

lemma path_mkdir_fresh:
  "path_mkdir p r = Inr r' \<Longrightarrow> resolve r p = Inl e \<Longrightarrow> resolve r' p = Inr (Dir [])"
proof (induction p r arbitrary: r' rule: path_mkdir.induct)
  case (4 c cs es)
  show ?case
  proof (cases "map_of es c")
    case None
    obtain n where "path_mkdir cs (Dir []) = Inr n" "resolve n cs = Inr (Dir [])"
      using path_mkdir_empty by blast
    with 4(2) None show ?thesis by (auto simp: update_conv')
  next
    case (Some ch)
    with 4 show ?thesis by (auto split: sum.splits simp: update_conv')
  qed
qed auto

lemma path_mkdir_frame:
  "path_mkdir dst r = Inr r' \<Longrightarrow> \<not> prefix src dst \<Longrightarrow> resolve r src = Inr n \<Longrightarrow> resolve r' src = Inr n"
proof (induction dst r arbitrary: r' src rule: path_mkdir.induct)
  case (4 c cs es)
  let ?ch = "case map_of es c of None \<Rightarrow> Dir [] | Some ch \<Rightarrow> ch"
  from 4(2) obtain ch' where m: "path_mkdir cs ?ch = Inr ch'" and r': "r' = Dir (AList.update c ch' es)"
    by (auto split: sum.splits)
  from 4(3) obtain s ss where src: "src = s # ss" by (cases src) auto
  show ?case
  proof (cases "s = c")
    case True
    with 4(3) src have np: "\<not> prefix ss cs" by simp
    from 4(4) src True obtain ch where some: "map_of es c = Some ch" and rs: "resolve ch ss = Inr n"
      by (auto split: option.splits)
    from m some have "path_mkdir cs ch = Inr ch'" by simp
    from 4(1)[OF m np] some rs have "resolve ch' ss = Inr n" by simp
    then show ?thesis by (simp add: r' src True update_conv')
  next
    case False
    with 4(4) show ?thesis by (simp add: r' src update_conv')
  qed
qed auto

lemma resolve_put_node:
  "resolve r p = Inr n \<Longrightarrow> resolve (put_node p new r) p = Inr new"
proof (induction p new r rule: put_node.induct)
  case (3 c cs new es)
  then show ?case by (auto split: option.splits simp: update_conv')
qed auto


lemma copytree_into_empty:
  assumes "resolve r source = Inr (Dir es)" and "wf_entries es"
      and "path_mkdir destination r = Inr r" and "resolve r destination = Inr (Dir [])"
  shows "copytree source destination r = (None, put_node destination (Dir es) r)"
proof -
  from assms(2) have "copy_entries es [] = ([], es)"
    using copy_into_fresh(2)[of es "[]"] by simp
  with assms show ?thesis by (simp add: copytree_def)
qed

text \<open>
  Claim C9. Let the template directory exist, with each name once in every directory,
  let the destination not exist, not lie inside the template directory, and be such
  that its directories can be made (no file is on the way); \<open>r_empty\<close> is the file
  system with the destination made, as an empty directory. Then copying into the
  destination that was made empty beforehand gives the same result and the same world
  as copying into the destination that does not exist yet; the copy succeeds; and the
  destination then holds the template tree.
\<close>

theorem copy_template_files_empty_destination:
  assumes "resolve (root w) source = Inr (Dir es)" and "wf_entries es"
      and "resolve (root w) destination = Inl FileNotFoundError"
      and "path_mkdir destination (root w) = Inr r_empty"
      and "\<not> prefix source destination"
  shows "resolve r_empty destination = Inr (Dir [])
       \<and> copy_template_files destination source (w\<lparr>root := r_empty\<rparr>)
           = copy_template_files destination source w
       \<and> fst (copy_template_files destination source w) = Inr ()
       \<and> resolve (root (snd (copy_template_files destination source w))) destination = Inr (Dir es)"
proof -
  have empty: "resolve r_empty destination = Inr (Dir [])"
    using assms(4,3) by (rule path_mkdir_fresh)
  have again: "path_mkdir destination r_empty = Inr r_empty"
    using assms(4) by (rule path_mkdir_idem)
  have src: "resolve r_empty source = Inr (Dir es)"
    using assms(4,5,1) by (rule path_mkdir_frame)
  have ct: "copytree source destination r_empty = (None, put_node destination (Dir es) r_empty)"
    using src assms(2) again empty by (rule copytree_into_empty)
  have fresh: "copy_template_files destination source w =
      (Inr (), w\<lparr>root := put_node destination (Dir es) r_empty,
                 calls := calls w @ [Mkdir destination, Copytree source destination]\<rparr>)"
    by (simp add: copy_template_files_def Let_def log_def assms(4) ct)
  have made: "copy_template_files destination source (w\<lparr>root := r_empty\<rparr>) =
      (Inr (), w\<lparr>root := put_node destination (Dir es) r_empty,
                 calls := calls w @ [Mkdir destination, Copytree source destination]\<rparr>)"
    by (simp add: copy_template_files_def Let_def log_def again ct)
  have "resolve (put_node destination (Dir es) r_empty) destination = Inr (Dir es)"
    using empty by (rule resolve_put_node)
  with empty fresh made show ?thesis by simp
qed

theorem copy_template_files_empty_destination_witness:
  "resolve (put_node [''work'', ''demo''] (Dir []) example_disk) [''work'', ''demo''] = Inr (Dir [])
   \<and> copy_template_files [''work'', ''demo''] (default_source example_host)
         (example_start\<lparr>root := put_node [''work'', ''demo''] (Dir []) example_disk\<rparr>)
       = copy_template_files [''work'', ''demo''] (default_source example_host) example_start
   \<and> fst (copy_template_files [''work'', ''demo''] (default_source example_host) example_start)
       = Inr ()
   \<and> resolve (root (snd (copy_template_files [''work'', ''demo''] (default_source example_host)
         example_start))) [''work'', ''demo''] = Inr (Dir example_template)"
proof -
  have src: "resolve (root example_start) (default_source example_host) = Inr (Dir example_template)"
    by (simp add: example_start_def example_disk_def default_source_def TEMPLATE_DIRECTORY_def
        example_host_def)
  have wf: "wf_entries example_template"
    by (simp add: example_template_def)
  have fresh: "resolve (root example_start) [''work'', ''demo''] = Inl FileNotFoundError"
    by (simp add: example_start_def example_disk_def)
  have made: "path_mkdir [''work'', ''demo''] (root example_start)
                = Inr (put_node [''work'', ''demo''] (Dir []) example_disk)"
    by (simp add: example_start_def example_disk_def)
  have apart: "\<not> prefix (default_source example_host) [''work'', ''demo'']"
    by (simp add: default_source_def TEMPLATE_DIRECTORY_def example_host_def)
  from copy_template_files_empty_destination [OF src wf fresh made apart]
  show ?thesis .
qed

section \<open>\<open>init\<close>: the steps and their failures\<close>

lemma restore_entered:
  "env_pop (remove_after update env)
     (env_update (update_after remove update env) (environ_entered remove update env)) = env"
proof
  fix k
  show "env_pop (remove_after update env)
     (env_update (update_after remove update env) (environ_entered remove update env)) k = env k"
  proof (cases "k \<in> fst ` set update \<or> (k \<in> set remove \<and> env k \<noteq> None)")
    case True
    then show ?thesis by (auto simp: restored_apply)
  next
    case False
    then have "environ_entered remove update env k = env k"
      by (cases "k \<in> set remove") (auto simp: environ_entered_frame environ_entered_absent)
    with False show ?thesis by (auto simp: restored_apply)
  qed
qed

lemma modified_environ_subprocess_run:
  "modified_environ remove update (subprocess_run prog args) w =
     (case exit_status prog args (enter_environ remove update w) of
        None \<Rightarrow> (Inl FileNotFoundError, log (Spawn args) w)
      | Some rc \<Rightarrow>
          (if rc \<noteq> 0 then Inl (CalledProcessError rc) else Inr (),
           (log (Spawn args) w)\<lparr>root := left_by prog args (enter_environ remove update w)\<rparr>))"
  by (simp add: modified_environ_def subprocess_run_def Let_def log_def enter_environ_def
      restore_entered split: option.splits)








lemmas run_defs =
  init_def create_project_def modified_environ_def enter_environ_def environ_entered_def
  env_pop_def env_update_def update_after_def remove_after_def stomped_def
  subprocess_run_def exit_status_def left_by_def log_def Let_def
  with_ChangeDirectory_def ChangeDirectory_enter_def ChangeDirectory_init_def
  ChangeDirectory_exit_def os_chdir_def access_dir_def joinpath_def
  init_project_def seq_def copy_template_files_def copytree_def default_source_def
  TEMPLATE_DIRECTORY_def install_prefect_def patch_pyproject_def init_args_def
  add_primary_def add_fallback_def nonzero_def


text \<open>
  Claim C6. When \<open>uv init\<close>, run under the environment with \<open>UV_VENV_SEED\<close> set,
  exits with a status other than 0, \<open>init\<close> raises \<open>typer.Exit(code=1)\<close>. The
  world it leaves is the one before, but for the file system as \<open>uv init\<close> left it and
  the one call made, the \<open>uv init\<close> itself: the environment is restored, the working
  directory is not changed, and there is no call to change directory, copy, install or
  open the manifest.
\<close>

theorem init_scaffold_failure:
  assumes "exit_status (uv h) (init_args name)
             (enter_environ [] [(''UV_VENV_SEED'', ''True'')] w) = Some rc"
      and "rc \<noteq> 0"
  shows "init h name w =
           (Inl (Exit 1),
            w\<lparr>root := left_by (uv h) (init_args name) (enter_environ [] [(''UV_VENV_SEED'', ''True'')] w),
              calls := calls w @ [Spawn (init_args name)]\<rparr>)"
  using assms
  by (simp add: init_def create_project_def modified_environ_subprocess_run log_def)

theorem init_scaffold_failure_witness:
  "init (example_host\<lparr>uv := failing_uv\<rparr>) ''demo'' example_start =
     (Inl (Exit 1), example_start\<lparr>calls := [Spawn (init_args ''demo'')]\<rparr>)"
  using init_scaffold_failure [of "example_host\<lparr>uv := failing_uv\<rparr>" "''demo''" example_start 2]
  by (simp add: exit_status_def left_by_def enter_environ_def failing_uv_def example_host_def
      example_start_def)


lemma os_chdir_root: "root (snd (os_chdir p w)) = root w"
  by (simp add: os_chdir_def Let_def log_def split: option.splits)



section \<open>The manifest step of \<open>init\<close>\<close>

lemma patch_pyproject_eq:
  assumes "resolve (root w) (cwd w @ [''pyproject.toml'']) = Inr (File text)"
      and "toml_loads h text = Some d"
      and "patch_manifest d = Inr d'"
  shows "patch_pyproject h w =
           (Inr (), w\<lparr>root := put_node (cwd w @ [''pyproject.toml'']) (File (toml_dumps h d')) (root w),
                      calls := calls w @ [OpenRead (cwd w @ [''pyproject.toml'']),
                                          OpenWrite (cwd w @ [''pyproject.toml''])]\<rparr>)"
  using assms by (simp add: patch_pyproject_def Let_def log_def)

lemma init_root_after_install:
  assumes created: "create_project h name w0 = (Inr (), wa)"
      and entered: "os_chdir (joinpath (cwd wa) name) wa = (Inr (), wb)"
      and copied: "copy_template_files (cwd wb) (default_source h) wb = (Inr (), wc)"
      and installed: "install_prefect h wc = (Inr (), w)"
  shows "root (snd (init h name w0)) = root (snd (patch_pyproject h w))"
proof -
  obtain r w4 where patch: "patch_pyproject h w = (r, w4)" by (cases "patch_pyproject h w")
  obtain r' w' where body: "init_project h name wb = (r', w')" by (cases "init_project h name wb")
  have "root w' = root w4"
    using body patch copied installed
    by (auto simp: init_project_def seq_def log_def split: sum.splits)
  moreover obtain r5 w5 where leave: "os_chdir (cwd wa) w' = (r5, w5)" by (cases "os_chdir (cwd wa) w'")
  moreover from leave have "root w5 = root w'" using os_chdir_root[of "cwd wa" w'] by simp
  moreover have "snd (init h name w0) = w5"
    by (simp add: init_def created with_ChangeDirectory_def ChangeDirectory_enter_def
          ChangeDirectory_init_def entered body ChangeDirectory_exit_def leave
          split: sum.splits)
  ultimately show ?thesis using patch by simp
qed

lemmas working_defs =
  working_host_def working_uv_def example_start_def example_disk_def example_template_def

text \<open>
  Claim C1, amended. Let \<open>pyproject.toml\<close> in the working directory be a file that
  \<open>toml.load\<close> reads as the document \<open>d\<close>. Then lines 108 to 116 open the file,
  patch \<open>d\<close> and write to that same file what \<open>toml.dump\<close> gives for the patched
  document \<open>d'\<close>, and \<open>d'\<close> has every top-level entry of \<open>d\<close> other than
  \<open>tool\<close>, with its value and in its place. In a run of \<open>init\<close> that reaches these
  lines, the file system \<open>init\<close> leaves is the one they left. How \<open>toml.dump\<close>
  renders a document as text is not stated: it is not part of the repository.
\<close>

theorem patch_pyproject_keeps_other_tables:
  assumes manifest: "resolve (root w) (cwd w @ [''pyproject.toml'']) = Inr (File text)"
      and parsed: "toml_loads h text = Some d"
  shows "\<exists>d'. patch_manifest d = Inr d'
        \<and> patch_pyproject h w =
            (Inr (), w\<lparr>root := put_node (cwd w @ [''pyproject.toml'']) (File (toml_dumps h d')) (root w),
                       calls := calls w @ [OpenRead (cwd w @ [''pyproject.toml'']),
                                           OpenWrite (cwd w @ [''pyproject.toml''])]\<rparr>)
        \<and> resolve (root (snd (patch_pyproject h w))) (cwd w @ [''pyproject.toml''])
            = Inr (File (toml_dumps h d'))
        \<and> filter (\<lambda>kv. fst kv \<noteq> ''tool'') d' = filter (\<lambda>kv. fst kv \<noteq> ''tool'') d
        \<and> (\<forall>k. k \<noteq> ''tool'' \<longrightarrow> map_of d' k = map_of d k)
        \<and> (\<forall>name w0 wa wb wc.
              create_project h name w0 = (Inr (), wa)
              \<and> os_chdir (joinpath (cwd wa) name) wa = (Inr (), wb)
              \<and> copy_template_files (cwd wb) (default_source h) wb = (Inr (), wc)
              \<and> install_prefect h wc = (Inr (), w)
              \<longrightarrow> root (snd (init h name w0)) = root (snd (patch_pyproject h w)))"
proof -
  let ?p = "cwd w @ [''pyproject.toml'']"
  let ?d' = "AList.update ''tool'' (TTable [(''prefect'', prefect_settings)]) d"
  have pm: "patch_manifest d = Inr ?d'" by (rule patch_manifest_eq)
  have step: "patch_pyproject h w =
            (Inr (), w\<lparr>root := put_node ?p (File (toml_dumps h ?d')) (root w),
                       calls := calls w @ [OpenRead ?p, OpenWrite ?p]\<rparr>)"
    using manifest parsed pm by (rule patch_pyproject_eq)
  have written: "resolve (root (snd (patch_pyproject h w))) ?p = Inr (File (toml_dumps h ?d'))"
    using manifest by (simp add: step resolve_put_node)
  have k1: "filter (\<lambda>kv. fst kv \<noteq> ''tool'') ?d' = filter (\<lambda>kv. fst kv \<noteq> ''tool'') d"
    by (rule filter_update_other)
  have k2: "\<forall>k. k \<noteq> ''tool'' \<longrightarrow> map_of ?d' k = map_of d k"
    by (simp add: update_conv')
  have whole: "\<forall>name w0 wa wb wc.
              create_project h name w0 = (Inr (), wa)
              \<and> os_chdir (joinpath (cwd wa) name) wa = (Inr (), wb)
              \<and> copy_template_files (cwd wb) (default_source h) wb = (Inr (), wc)
              \<and> install_prefect h wc = (Inr (), w)
              \<longrightarrow> root (snd (init h name w0)) = root (snd (patch_pyproject h w))"
  proof (intro allI impI, elim conjE)
    fix name w0 wa wb wc
    assume "create_project h name w0 = (Inr (), wa)"
      and "os_chdir (joinpath (cwd wa) name) wa = (Inr (), wb)"
      and "copy_template_files (cwd wb) (default_source h) wb = (Inr (), wc)"
      and "install_prefect h wc = (Inr (), w)"
    then show "root (snd (init h name w0)) = root (snd (patch_pyproject h w))"
      by (rule init_root_after_install)
  qed
  show ?thesis
    by (rule exI [of _ ?d']) (intro conjI pm step written k1 k2 whole)
qed


theorem patch_pyproject_keeps_other_tables_witness:
  "\<exists>d'. resolve (root (snd (init working_host ''demo'' example_start)))
            [''work'', ''demo'', ''pyproject.toml''] = Inr (File (toml_dumps working_host d'))
        \<and> filter (\<lambda>kv. fst kv \<noteq> ''tool'') d' = [(''project'', TTable [(''name'', TStr ''demo'')])]
        \<and> map_of d' ''project'' = Some (TTable [(''name'', TStr ''demo'')])"
proof -
  define wa where "wa = snd (create_project working_host ''demo'' example_start)"
  define wb where "wb = snd (os_chdir (joinpath (cwd wa) ''demo'') wa)"
  define wc where "wc = snd (copy_template_files (cwd wb) (default_source working_host) wb)"
  define w where "w = snd (install_prefect working_host wc)"
  have created: "create_project working_host ''demo'' example_start = (Inr (), wa)"
    unfolding wa_def by (simp add: run_defs working_defs)
  have entered: "os_chdir (joinpath (cwd wa) ''demo'') wa = (Inr (), wb)"
    unfolding wb_def wa_def by (simp add: run_defs working_defs)
  have copied: "copy_template_files (cwd wb) (default_source working_host) wb = (Inr (), wc)"
    unfolding wc_def wb_def wa_def by (simp add: run_defs working_defs)
  have installed: "install_prefect working_host wc = (Inr (), w)"
    unfolding w_def wc_def wb_def wa_def by (simp add: run_defs working_defs)
  have dir: "cwd w = [''work'', ''demo'']"
    unfolding w_def wc_def wb_def wa_def by (simp add: run_defs working_defs)
  have manifest: "resolve (root w) (cwd w @ [''pyproject.toml'']) = Inr (File ''[project]'')"
    unfolding w_def wc_def wb_def wa_def by (simp add: run_defs working_defs)
  have parsed: "toml_loads working_host ''[project]'' = Some example_manifest"
    by (simp add: working_host_def)
  from patch_pyproject_keeps_other_tables [OF manifest parsed]
  obtain d' where all: "patch_manifest example_manifest = Inr d'
        \<and> patch_pyproject working_host w =
            (Inr (), w\<lparr>root := put_node (cwd w @ [''pyproject.toml''])
                                 (File (toml_dumps working_host d')) (root w),
                       calls := calls w @ [OpenRead (cwd w @ [''pyproject.toml'']),
                                           OpenWrite (cwd w @ [''pyproject.toml''])]\<rparr>)
        \<and> resolve (root (snd (patch_pyproject working_host w))) (cwd w @ [''pyproject.toml''])
            = Inr (File (toml_dumps working_host d'))
        \<and> filter (\<lambda>kv. fst kv \<noteq> ''tool'') d' = filter (\<lambda>kv. fst kv \<noteq> ''tool'') example_manifest
        \<and> (\<forall>k. k \<noteq> ''tool'' \<longrightarrow> map_of d' k = map_of example_manifest k)
        \<and> (\<forall>name w0 wa wb wc.
              create_project working_host name w0 = (Inr (), wa)
              \<and> os_chdir (joinpath (cwd wa) name) wa = (Inr (), wb)
              \<and> copy_template_files (cwd wb) (default_source working_host) wb = (Inr (), wc)
              \<and> install_prefect working_host wc = (Inr (), w)
              \<longrightarrow> root (snd (init working_host name w0))
                    = root (snd (patch_pyproject working_host w)))" ..
  note written = all [THEN conjunct2, THEN conjunct2, THEN conjunct1]
  note whole = all [THEN conjunct2, THEN conjunct2, THEN conjunct2, THEN conjunct2,
      THEN conjunct2, rule_format]
  have "root (snd (init working_host ''demo'' example_start))
          = root (snd (patch_pyproject working_host w))"
    using created entered copied installed by (intro whole conjI)
  with written dir have onfile: "resolve (root (snd (init working_host ''demo'' example_start)))
            [''work'', ''demo'', ''pyproject.toml''] = Inr (File (toml_dumps working_host d'))"
    by simp
  note kept = all [THEN conjunct2, THEN conjunct2, THEN conjunct2, THEN conjunct1]
  note same = all [THEN conjunct2, THEN conjunct2, THEN conjunct2, THEN conjunct2,
      THEN conjunct1, rule_format]
  from kept have others: "filter (\<lambda>kv. fst kv \<noteq> ''tool'') d'
                            = [(''project'', TTable [(''name'', TStr ''demo'')])]"
    by (simp add: example_manifest_def)
  have "map_of d' ''project'' = map_of example_manifest ''project''"
    by (rule same) simp
  then have project: "map_of d' ''project'' = Some (TTable [(''name'', TStr ''demo'')])"
    by (simp add: example_manifest_def)
  show ?thesis
    by (rule exI [of _ d']) (intro conjI onfile others project)
qed

text \<open>
  Claim C2. Let \<open>pyproject.toml\<close> in the working directory be a file that
  \<open>toml.load\<close> reads as the document \<open>d\<close>, whatever \<open>d\<close> is. Then lines 108 to
  116 open the file, patch \<open>d\<close> and write to that same file what \<open>toml.dump\<close>
  gives for the patched document \<open>d'\<close>, in which the table \<open>tool\<close> holds the one
  entry \<open>prefect\<close>, whose value is the table of the two fields \<open>home\<close> and
  \<open>profiles_path\<close>: nothing of an earlier \<open>tool.prefect\<close> is kept. In a run of
  \<open>init\<close> that reaches these lines, the file system \<open>init\<close> leaves is the one
  they left.
\<close>

theorem patch_pyproject_writes_tool_prefect:
  assumes manifest: "resolve (root w) (cwd w @ [''pyproject.toml'']) = Inr (File text)"
      and parsed: "toml_loads h text = Some d"
  shows "\<exists>d'. patch_manifest d = Inr d'
        \<and> patch_pyproject h w =
            (Inr (), w\<lparr>root := put_node (cwd w @ [''pyproject.toml'']) (File (toml_dumps h d')) (root w),
                       calls := calls w @ [OpenRead (cwd w @ [''pyproject.toml'']),
                                           OpenWrite (cwd w @ [''pyproject.toml''])]\<rparr>)
        \<and> resolve (root (snd (patch_pyproject h w))) (cwd w @ [''pyproject.toml''])
            = Inr (File (toml_dumps h d'))
        \<and> getitem2 ''tool'' ''prefect'' d' =
            Some (TTable [(''home'', TStr ''./.prefect''),
                          (''profiles_path'', TStr ''./.prefect/profiles.toml'')])
        \<and> map_of d' ''tool'' =
            Some (TTable [(''prefect'', TTable [(''home'', TStr ''./.prefect''),
                          (''profiles_path'', TStr ''./.prefect/profiles.toml'')])])
        \<and> (\<forall>name w0 wa wb wc.
              create_project h name w0 = (Inr (), wa)
              \<and> os_chdir (joinpath (cwd wa) name) wa = (Inr (), wb)
              \<and> copy_template_files (cwd wb) (default_source h) wb = (Inr (), wc)
              \<and> install_prefect h wc = (Inr (), w)
              \<longrightarrow> root (snd (init h name w0)) = root (snd (patch_pyproject h w)))"
proof -
  let ?p = "cwd w @ [''pyproject.toml'']"
  let ?d' = "AList.update ''tool'' (TTable [(''prefect'', prefect_settings)]) d"
  have pm: "patch_manifest d = Inr ?d'" by (rule patch_manifest_eq)
  have step: "patch_pyproject h w =
            (Inr (), w\<lparr>root := put_node ?p (File (toml_dumps h ?d')) (root w),
                       calls := calls w @ [OpenRead ?p, OpenWrite ?p]\<rparr>)"
    using manifest parsed pm by (rule patch_pyproject_eq)
  have written: "resolve (root (snd (patch_pyproject h w))) ?p = Inr (File (toml_dumps h ?d'))"
    using manifest by (simp add: step resolve_put_node)
  have t1: "getitem2 ''tool'' ''prefect'' ?d' =
            Some (TTable [(''home'', TStr ''./.prefect''),
                          (''profiles_path'', TStr ''./.prefect/profiles.toml'')])"
    by (simp add: getitem2_def update_conv' prefect_settings_def)
  have t2: "map_of ?d' ''tool'' =
            Some (TTable [(''prefect'', TTable [(''home'', TStr ''./.prefect''),
                          (''profiles_path'', TStr ''./.prefect/profiles.toml'')])])"
    by (simp add: update_conv' prefect_settings_def)
  have whole: "\<forall>name w0 wa wb wc.
              create_project h name w0 = (Inr (), wa)
              \<and> os_chdir (joinpath (cwd wa) name) wa = (Inr (), wb)
              \<and> copy_template_files (cwd wb) (default_source h) wb = (Inr (), wc)
              \<and> install_prefect h wc = (Inr (), w)
              \<longrightarrow> root (snd (init h name w0)) = root (snd (patch_pyproject h w))"
  proof (intro allI impI, elim conjE)
    fix name w0 wa wb wc
    assume "create_project h name w0 = (Inr (), wa)"
      and "os_chdir (joinpath (cwd wa) name) wa = (Inr (), wb)"
      and "copy_template_files (cwd wb) (default_source h) wb = (Inr (), wc)"
      and "install_prefect h wc = (Inr (), w)"
    then show "root (snd (init h name w0)) = root (snd (patch_pyproject h w))"
      by (rule init_root_after_install)
  qed
  show ?thesis
    by (rule exI [of _ ?d']) (intro conjI pm step written t1 t2 whole)
qed

theorem patch_pyproject_writes_tool_prefect_witness:
  "\<exists>d'. resolve (root (snd (init working_host ''demo'' example_start)))
            [''work'', ''demo'', ''pyproject.toml''] = Inr (File (toml_dumps working_host d'))
        \<and> getitem2 ''tool'' ''prefect'' d' =
            Some (TTable [(''home'', TStr ''./.prefect''),
                          (''profiles_path'', TStr ''./.prefect/profiles.toml'')])"
proof -
  define wa where "wa = snd (create_project working_host ''demo'' example_start)"
  define wb where "wb = snd (os_chdir (joinpath (cwd wa) ''demo'') wa)"
  define wc where "wc = snd (copy_template_files (cwd wb) (default_source working_host) wb)"
  define w where "w = snd (install_prefect working_host wc)"
  have created: "create_project working_host ''demo'' example_start = (Inr (), wa)"
    unfolding wa_def by (simp add: run_defs working_defs)
  have entered: "os_chdir (joinpath (cwd wa) ''demo'') wa = (Inr (), wb)"
    unfolding wb_def wa_def by (simp add: run_defs working_defs)
  have copied: "copy_template_files (cwd wb) (default_source working_host) wb = (Inr (), wc)"
    unfolding wc_def wb_def wa_def by (simp add: run_defs working_defs)
  have installed: "install_prefect working_host wc = (Inr (), w)"
    unfolding w_def wc_def wb_def wa_def by (simp add: run_defs working_defs)
  have dir: "cwd w = [''work'', ''demo'']"
    unfolding w_def wc_def wb_def wa_def by (simp add: run_defs working_defs)
  have manifest: "resolve (root w) (cwd w @ [''pyproject.toml'']) = Inr (File ''[project]'')"
    unfolding w_def wc_def wb_def wa_def by (simp add: run_defs working_defs)
  have parsed: "toml_loads working_host ''[project]'' = Some example_manifest"
    by (simp add: working_host_def)
  from patch_pyproject_writes_tool_prefect [OF manifest parsed]
  obtain d' where all: "patch_manifest example_manifest = Inr d'
        \<and> patch_pyproject working_host w =
            (Inr (), w\<lparr>root := put_node (cwd w @ [''pyproject.toml''])
                                 (File (toml_dumps working_host d')) (root w),
                       calls := calls w @ [OpenRead (cwd w @ [''pyproject.toml'']),
                                           OpenWrite (cwd w @ [''pyproject.toml''])]\<rparr>)
        \<and> resolve (root (snd (patch_pyproject working_host w))) (cwd w @ [''pyproject.toml''])
            = Inr (File (toml_dumps working_host d'))
        \<and> getitem2 ''tool'' ''prefect'' d' =
            Some (TTable [(''home'', TStr ''./.prefect''),
                          (''profiles_path'', TStr ''./.prefect/profiles.toml'')])
        \<and> map_of d' ''tool'' =
            Some (TTable [(''prefect'', TTable [(''home'', TStr ''./.prefect''),
                          (''profiles_path'', TStr ''./.prefect/profiles.toml'')])])
        \<and> (\<forall>name w0 wa wb wc.
              create_project working_host name w0 = (Inr (), wa)
              \<and> os_chdir (joinpath (cwd wa) name) wa = (Inr (), wb)
              \<and> copy_template_files (cwd wb) (default_source working_host) wb = (Inr (), wc)
              \<and> install_prefect working_host wc = (Inr (), w)
              \<longrightarrow> root (snd (init working_host name w0))
                    = root (snd (patch_pyproject working_host w)))" ..
  note written = all [THEN conjunct2, THEN conjunct2, THEN conjunct1]
  note whole = all [THEN conjunct2, THEN conjunct2, THEN conjunct2, THEN conjunct2,
      THEN conjunct2, rule_format]
  have "root (snd (init working_host ''demo'' example_start))
          = root (snd (patch_pyproject working_host w))"
    using created entered copied installed by (intro whole conjI)
  with written dir have onfile: "resolve (root (snd (init working_host ''demo'' example_start)))
            [''work'', ''demo'', ''pyproject.toml''] = Inr (File (toml_dumps working_host d'))"
    by simp
  note table = all [THEN conjunct2, THEN conjunct2, THEN conjunct2, THEN conjunct1]
  show ?thesis
    by (rule exI [of _ d']) (intro conjI onfile table)
qed

end
